theory Spec2Isabelle
  imports Main
begin

section \<open>JavaScript values\<close>

text \<open>
  A JavaScript number is a double: a finite dyadic rational, an infinity or \<^verbatim>\<open>NaN\<close>. The
  Express server (the TypeScript part of \<^verbatim>\<open>src/README.md\<close>) compares numbers with integer
  literals, tests their truthiness and hands them to \<^verbatim>\<open>res.status\<close>, which asks whether they
  are integers. \<open>Num n\<close> is the integer \<open>n\<close>; \<open>Frac m k\<close> is the non-integer
  \<open>(2 m + 1) / 2 ^ (k + 1)\<close>, so that \<open>Frac 404 0\<close> is 404.5 and every finite non-integer
  double is exactly one \<open>Frac\<close>. Negative zero is \<open>Num 0\<close>: it is falsy as zero is.
\<close>

datatype number = Num int | Frac int nat | Infinity | NegInfinity | NaN

text \<open>
  \<^verbatim>\<open>CustomError.code\<close> is declared \<^verbatim>\<open>code?: string\<close> and compared with the number
  \<^verbatim>\<open>11000\<close>; at run time the field holds whatever the thrower stored, so it is a value of
  any of the three kinds.
\<close>

datatype jsvalue = Undefined | Str string | Number number

text \<open>Truthiness of a number: \<^verbatim>\<open>0\<close> and \<^verbatim>\<open>NaN\<close> are falsy, everything else is truthy.\<close>

fun truthy_number :: "number \<Rightarrow> bool" where
  "truthy_number (Num n) = (if n = 0 then False else True)"
| "truthy_number (Frac m k) = True"
| "truthy_number Infinity = True"
| "truthy_number NegInfinity = True"
| "truthy_number NaN = False"

text \<open>\<^verbatim>\<open>a || d\<close> on an optional number and on an optional string (the empty string is falsy).\<close>

definition or_number :: "number option \<Rightarrow> number \<Rightarrow> number" where
  "or_number a d = (case a of None \<Rightarrow> d | Some n \<Rightarrow> if truthy_number n then n else d)"

definition or_string :: "string option \<Rightarrow> string \<Rightarrow> string" where
  "or_string a d = (case a of None \<Rightarrow> d | Some s \<Rightarrow> if s = [] then d else s)"

text \<open>\<^verbatim>\<open>v === n\<close> for an integer literal \<open>n\<close>: no coercion, so only the number itself is equal.\<close>

definition strict_eq_int :: "jsvalue \<Rightarrow> int \<Rightarrow> bool" where
  "strict_eq_int v n = (v = Number (Num n))"

section \<open>Data of the server\<close>

datatype health_status = healthy | unhealthy

datatype mongo_status = connected | disconnected

record mongodb_info =
  mongodb_status :: mongo_status
  mongodb_message :: string

text \<open>\<^verbatim>\<open>interface HealthCheckResponse\<close>.\<close>

record HealthCheckResponse =
  status :: health_status
  timestamp :: string
  uptime :: number
  mongodb :: mongodb_info
  environment :: string

text \<open>
  \<^verbatim>\<open>interface CustomError extends Error\<close>. Every field may be missing at run time (Express
  passes on whatever was thrown), so each is optional; \<open>code\<close> is a \<^typ>\<open>jsvalue\<close>.
\<close>

record CustomError =
  statusCode :: "number option"
  code :: jsvalue
  name :: "string option"
  message :: "string option"
  stack :: "string option"

text \<open>The object handed to \<^verbatim>\<open>console.error\<close>.\<close>

record error_log =
  log_message :: "string option"
  log_statusCode :: number
  log_timestamp :: string
  log_path :: string
  log_method :: string
  log_stack :: "string option"

text \<open>
  The JSON body written by the 404 handler and by the error handler; \<open>body_stack\<close> is
  present in the error handler's default branch in development only.
\<close>

record error_body =
  success :: bool
  error :: string
  body_message :: string
  body_timestamp :: string
  body_stack :: "string option"

text \<open>
  What a client can receive as the body of a response: one of the two JSON documents, nothing,
  or the HTML page of Express's own last-resort error handler.
\<close>

datatype payload = HealthJson HealthCheckResponse | ErrorJson error_body | NoBody | HtmlErrorPage

record wire_response =
  wire_status :: int
  wire_body :: payload

text \<open>The arguments of a handler's closing \<^verbatim>\<open>res.status(c).json(b)\<close>.\<close>

record reply =
  status_arg :: number
  json_arg :: payload

text \<open>
  A request, as far as the server and Express look at it. \<open>req_method\<close> and \<open>req_path\<close> are
  \<^verbatim>\<open>req.method\<close> and \<^verbatim>\<open>req.path\<close>. \<open>body_error\<close> is what the body parsers
  \<^verbatim>\<open>express.json\<close> and \<^verbatim>\<open>express.urlencoded\<close> make of the headers and body, which are not
  represented otherwise: \<open>None\<close> when both call \<^verbatim>\<open>next()\<close>, \<open>Some e\<close> when one calls
  \<^verbatim>\<open>next(e)\<close>. \<open>validators_match\<close> is the outcome of the header comparison behind
  \<^verbatim>\<open>req.fresh\<close>: the request carries \<^verbatim>\<open>If-None-Match\<close> or \<^verbatim>\<open>If-Modified-Since\<close> and
  they match the response's validators (\<^verbatim>\<open>If-None-Match: *\<close> matches every response).
\<close>

record Request =
  req_method :: string
  req_path :: string
  body_error :: "CustomError option"
  validators_match :: bool

section \<open>Express: sending a reply\<close>

text \<open>
  \<^verbatim>\<open>res.status(code)\<close> of Express 5 accepts an integer from 100 to 999 and throws for every
  other number: a \<^verbatim>\<open>TypeError\<close> for a non-integer, a \<^verbatim>\<open>RangeError\<close> for an integer out
  of range. The thrown error has no \<^verbatim>\<open>statusCode\<close> and no \<^verbatim>\<open>code\<close>; its message also
  quotes the offending number, which is left out here.
\<close>

definition status_error :: "string \<Rightarrow> CustomError" where
  "status_error kind = \<lparr> statusCode = None, code = Undefined, name = Some kind,
                         message = Some ''Invalid status code'', stack = None \<rparr>"

fun res_status :: "number \<Rightarrow> CustomError + int" where
  "res_status (Num n) = (if 100 \<le> n \<and> n \<le> 999 then Inr n else Inl (status_error ''RangeError''))"
| "res_status (Frac m k) = Inl (status_error ''TypeError'')"
| "res_status Infinity = Inl (status_error ''TypeError'')"
| "res_status NegInfinity = Inl (status_error ''TypeError'')"
| "res_status NaN = Inl (status_error ''TypeError'')"

text \<open>
  \<^verbatim>\<open>res.json(body)\<close> once the status \<open>n\<close> is set. \<^verbatim>\<open>res.send\<close> turns the status of a GET
  or HEAD request into 304 when the status is 2xx or 304 and the validators match; it sends no
  body with 204, 205 and 304, Node sends none with 1xx, and a HEAD request gets none.
\<close>

definition bodyless :: "int \<Rightarrow> bool" where
  "bodyless n = (n = 204 \<or> n = 205 \<or> n = 304 \<or> (100 \<le> n \<and> n \<le> 199))"

definition res_json :: "Request \<Rightarrow> int \<Rightarrow> payload \<Rightarrow> wire_response" where
  "res_json req n b =
     (let fresh = ((req_method req = ''GET'' \<or> req_method req = ''HEAD'')
                   \<and> (200 \<le> n \<and> n < 300 \<or> n = 304) \<and> validators_match req);
          sent = (if fresh then 304 else n)
      in \<lparr> wire_status = sent,
           wire_body = (if bodyless sent \<or> req_method req = ''HEAD'' then NoBody else b) \<rparr>)"

text \<open>\<^verbatim>\<open>res.status(c).json(b)\<close>: \<open>Inl\<close> is the error thrown by \<^verbatim>\<open>res.status\<close>.\<close>

definition respond :: "Request \<Rightarrow> reply \<Rightarrow> CustomError + wire_response" where
  "respond req r = (case res_status (status_arg r) of
                      Inl e \<Rightarrow> Inl e
                    | Inr n \<Rightarrow> Inr (res_json req n (json_arg r)))"

text \<open>
  When the last error handler itself throws, Express answers with its own handler: status 500,
  since the response's status is still the initial 200 and the thrown error carries none, and
  an HTML page (no body for HEAD).
\<close>

definition default_error_page :: "Request \<Rightarrow> wire_response" where
  "default_error_page req =
     \<lparr> wire_status = 500,
       wire_body = (if req_method req = ''HEAD'' then NoBody else HtmlErrorPage) \<rparr>"

section \<open>Health check endpoint\<close>

text \<open>
  The handler of \<^verbatim>\<open>app.get('/health', ...)\<close>. Its inputs are everything it reads from its
  surroundings: \<^verbatim>\<open>mongoose.connection.readyState\<close>, the clock, \<^verbatim>\<open>process.uptime()\<close> and
  \<^verbatim>\<open>process.env.NODE_ENV\<close>. The request itself is not read.
\<close>

definition health :: "number \<Rightarrow> string \<Rightarrow> number \<Rightarrow> string option \<Rightarrow> reply" where
  "health readyState now up NODE_ENV =
     (let mongoStatus = (if readyState = Num 1 then connected else disconnected);
          mongoMessage = (if mongoStatus = connected
                          then ''MongoDB connection is active''
                          else ''MongoDB connection is inactive'');
          healthResponse = \<lparr> status = (if mongoStatus = connected then healthy else unhealthy),
                             timestamp = now,
                             uptime = up,
                             mongodb = \<lparr> mongodb_status = mongoStatus,
                                         mongodb_message = mongoMessage \<rparr>,
                             environment = or_string NODE_ENV ''development'' \<rparr>;
          statusCode = (if mongoStatus = connected then Num 200 else Num 503)
      in \<lparr> status_arg = statusCode, json_arg = HealthJson healthResponse \<rparr>)"

section \<open>404 handler\<close>

definition notFound :: "Request \<Rightarrow> string \<Rightarrow> reply" where
  "notFound req now =
     \<lparr> status_arg = Num 404,
       json_arg = ErrorJson \<lparr> success = False,
                              error = ''Not Found'',
                              body_message = ''Route '' @ req_method req @ '' '' @ req_path req
                                             @ '' does not exist'',
                              body_timestamp = now,
                              body_stack = None \<rparr> \<rparr>"

section \<open>Global error handling middleware\<close>

definition isDevelopment :: "string option \<Rightarrow> bool" where
  "isDevelopment NODE_ENV = (NODE_ENV = Some ''development'')"

text \<open>
  The four-argument middleware \<^verbatim>\<open>app.use((err, req, res, next) => ...)\<close>, in two parts: what
  it logs, and the \<^verbatim>\<open>res.status(...).json(...)\<close> it ends with. \<open>t_log\<close> and \<open>t_res\<close> are
  the two readings of the clock.
\<close>

definition errorHandler_log ::
  "CustomError \<Rightarrow> Request \<Rightarrow> string option \<Rightarrow> string \<Rightarrow> error_log" where
  "errorHandler_log err req NODE_ENV t_log =
     \<lparr> log_message = message err,
       log_statusCode = or_number (statusCode err) (Num 500),
       log_timestamp = t_log,
       log_path = req_path req,
       log_method = req_method req,
       log_stack = (if isDevelopment NODE_ENV then stack err else None) \<rparr>"

definition errorHandler :: "CustomError \<Rightarrow> string option \<Rightarrow> string \<Rightarrow> reply" where
  "errorHandler err NODE_ENV t_res =
     (let statusCode = or_number (statusCode err) (Num 500) in
      if strict_eq_int (code err) 11000 then
        \<lparr> status_arg = Num 400,
          json_arg = ErrorJson \<lparr> success = False,
                                 error = ''Validation Error'',
                                 body_message = ''Duplicate field value entered'',
                                 body_timestamp = t_res,
                                 body_stack = None \<rparr> \<rparr>
      else if name err = Some ''CastError'' then
        \<lparr> status_arg = Num 400,
          json_arg = ErrorJson \<lparr> success = False,
                                 error = ''Validation Error'',
                                 body_message = ''Invalid data format'',
                                 body_timestamp = t_res,
                                 body_stack = None \<rparr> \<rparr>
      else
        \<lparr> status_arg = statusCode,
          json_arg = ErrorJson \<lparr> success = False,
                                 error = or_string (name err) ''Internal Server Error'',
                                 body_message = or_string (message err)
                                                  ''An unexpected error occurred'',
                                 body_timestamp = t_res,
                                 body_stack = (if isDevelopment NODE_ENV then stack err
                                               else None) \<rparr> \<rparr>)"

text \<open>
  The answer to a request whose handling ended in \<^verbatim>\<open>next(err)\<close>: the error handler's reply
  as Express sends it, or Express's own error page when \<^verbatim>\<open>res.status\<close> throws inside the
  handler (the handler has no \<^verbatim>\<open>try\<close> around it, and no error handler follows it).
\<close>

definition handle_error :: "Request \<Rightarrow> CustomError \<Rightarrow> string option \<Rightarrow> string \<Rightarrow> wire_response" where
  "handle_error req err NODE_ENV now =
     (case respond req (errorHandler err NODE_ENV now) of
        Inr r \<Rightarrow> r
      | Inl thrown \<Rightarrow> default_error_page req)"

section \<open>The server\<close>

text \<open>
  Express matches the route path without regard to the case of ASCII letters and with an
  optional trailing slash, and lets \<^verbatim>\<open>app.get\<close> serve HEAD as well.
\<close>

definition lower_ascii :: "char \<Rightarrow> char" where
  "lower_ascii c = (case map_of (zip ''ABCDEFGHIJKLMNOPQRSTUVWXYZ'' ''abcdefghijklmnopqrstuvwxyz'') c of
                      None \<Rightarrow> c
                    | Some d \<Rightarrow> d)"

definition route_health :: "Request \<Rightarrow> bool" where
  "route_health req =
     ((req_method req = ''GET'' \<or> req_method req = ''HEAD'')
      \<and> (map lower_ascii (req_path req) = ''/health'' \<or> map lower_ascii (req_path req) = ''/health/''))"

text \<open>
  The application in the order in which it is assembled. \<^verbatim>\<open>helmet\<close>, \<^verbatim>\<open>compression\<close> and the
  logging middleware only pass the request on. \<^verbatim>\<open>cors\<close> answers every OPTIONS request itself,
  with \<^verbatim>\<open>optionsSuccessStatus\<close> 200 and an empty body. The body parsers come next, then the
  one route, then the 404 handler; an error from any of them goes to the error handler.
\<close>

definition server :: "number \<Rightarrow> string option \<Rightarrow> string \<Rightarrow> number \<Rightarrow> Request \<Rightarrow> wire_response" where
  "server readyState NODE_ENV now up req =
     (if req_method req = ''OPTIONS'' then \<lparr> wire_status = 200, wire_body = NoBody \<rparr>
      else case body_error req of
        Some err \<Rightarrow> handle_error req err NODE_ENV now
      | None \<Rightarrow>
          (case respond req (if route_health req then health readyState now up NODE_ENV
                             else notFound req now) of
             Inr r \<Rightarrow> r
           | Inl thrown \<Rightarrow> handle_error req thrown NODE_ENV now))"

section \<open>Sending a reply: auxiliary facts\<close>



lemma res_status_Inr: "res_status c = Inr n \<longleftrightarrow> c = Num n \<and> 100 \<le> n \<and> n \<le> 999"
  by (cases c) auto


text \<open>The two route handlers pass 200, 503 or 404, so \<^verbatim>\<open>res.status\<close> never throws in them.\<close>

lemma respond_health:
  "respond req (health readyState now up env) =
     Inr (res_json req (if readyState = Num 1 then 200 else 503)
            (json_arg (health readyState now up env)))"
  by (simp add: respond_def health_def)

lemma respond_notFound:
  "respond req (notFound req now) = Inr (res_json req 404 (json_arg (notFound req now)))"
  by (simp add: respond_def notFound_def)

lemma health_body:
  "json_arg (health readyState now up env) =
     HealthJson \<lparr> status = (if readyState = Num 1 then healthy else unhealthy),
                  timestamp = now, uptime = up,
                  mongodb = \<lparr> mongodb_status = (if readyState = Num 1 then connected
                                                else disconnected),
                              mongodb_message = (if readyState = Num 1
                                                 then ''MongoDB connection is active''
                                                 else ''MongoDB connection is inactive'') \<rparr>,
                  environment = or_string env ''development'' \<rparr>"
  by (simp add: health_def)

section \<open>Properties of the health check\<close>

text \<open>
  C9, counterexample. A GET request for \<^verbatim>\<open>/health\<close> whose JSON body is cut short, sent while
  \<^verbatim>\<open>readyState\<close> is 1, never reaches the route: \<^verbatim>\<open>express.json\<close> is mounted before it and
  passes its \<^verbatim>\<open>SyntaxError\<close> (\<^verbatim>\<open>statusCode\<close> 400) to the error handler, which answers 400
  where the claim promises 200.
\<close>

theorem health_truncated_json_counterexample:
  "wire_status (server (Num 1) None ''2025-12-10T00:00:00.000Z'' (Num 42)
      \<lparr> req_method = ''GET'', req_path = ''/health'',
        body_error = Some \<lparr> statusCode = Some (Num 400), code = Undefined,
                            name = Some ''SyntaxError'',
                            message = Some ''Unexpected end of JSON input'', stack = None \<rparr>,
        validators_match = False \<rparr>) = 400"
  by (simp add: server_def handle_error_def respond_def errorHandler_def or_number_def
        strict_eq_int_def res_json_def)

text \<open>
  C9, amended. A GET request for \<^verbatim>\<open>/health\<close> that the body parsers pass on to the route is
  answered with HTTP 200 and body status \<open>healthy\<close> when \<^verbatim>\<open>mongoose.connection.readyState\<close>
  is 1, and with HTTP 503 and body status \<open>unhealthy\<close> for every other value; the body's
  \<^verbatim>\<open>mongodb.status\<close> is \<open>connected\<close> in the first case and \<open>disconnected\<close> in the second.
  Left aside is the conditional request whose validators match while \<^verbatim>\<open>readyState\<close> is 1:
  \<^verbatim>\<open>res.send\<close> turns its 200 into a 304 without a body.
\<close>

theorem health_reflects_readyState:
  assumes "req_method req = ''GET''" and "route_health req" and "body_error req = None"
    and "\<not> (readyState = Num 1 \<and> validators_match req)"
  shows "wire_status (server readyState env now up req) = (if readyState = Num 1 then 200 else 503)
         \<and> (\<exists>h. wire_body (server readyState env now up req) = HealthJson h
                \<and> status h = (if readyState = Num 1 then healthy else unhealthy)
                \<and> mongodb_status (mongodb h)
                    = (if readyState = Num 1 then connected else disconnected))"
proof -
  have s: "server readyState env now up req =
             res_json req (if readyState = Num 1 then 200 else 503)
               (json_arg (health readyState now up env))"
    using assms by (simp add: server_def respond_health)
  show ?thesis
    using assms by (auto simp add: s res_json_def bodyless_def health_body)
qed

text \<open>
  C9, witness: \<^verbatim>\<open>GET /health\<close> with \<^verbatim>\<open>readyState\<close> 1 gives 200, \<open>healthy\<close> and
  \<open>connected\<close>; \<^verbatim>\<open>GET /Health/\<close> with \<^verbatim>\<open>readyState\<close> 0 gives 503.
\<close>

theorem health_reflects_readyState_witness:
  "wire_status (server (Num 1) None ''2025-12-10T00:00:00.000Z'' (Num 42)
      \<lparr> req_method = ''GET'', req_path = ''/health'', body_error = None, validators_match = False \<rparr>)
     = 200
   \<and> (\<exists>h. wire_body (server (Num 1) None ''2025-12-10T00:00:00.000Z'' (Num 42)
             \<lparr> req_method = ''GET'', req_path = ''/health'', body_error = None,
               validators_match = False \<rparr>) = HealthJson h
          \<and> status h = healthy \<and> mongodb_status (mongodb h) = connected)
   \<and> wire_status (server (Num 0) None ''2025-12-10T00:00:00.000Z'' (Num 42)
      \<lparr> req_method = ''GET'', req_path = ''/Health/'', body_error = None, validators_match = True \<rparr>)
     = 503"
proof -
  let ?r1 = "\<lparr> req_method = ''GET'', req_path = ''/health'', body_error = None,
               validators_match = False \<rparr>"
  let ?r2 = "\<lparr> req_method = ''GET'', req_path = ''/Health/'', body_error = None,
               validators_match = True \<rparr>"
  have m1: "req_method ?r1 = ''GET''" and b1: "body_error ?r1 = None"
    and v1: "\<not> (Num 1 = Num 1 \<and> validators_match ?r1)"
    by simp_all
  have h1: "route_health ?r1"
    by (simp add: route_health_def lower_ascii_def)
  have m2: "req_method ?r2 = ''GET''" and b2: "body_error ?r2 = None"
    and v2: "\<not> (Num 0 = Num 1 \<and> validators_match ?r2)"
    by simp_all
  have h2: "route_health ?r2"
    by (simp add: route_health_def lower_ascii_def)
  show ?thesis
    using health_reflects_readyState[OF m1 h1 b1 v1, of None "''2025-12-10T00:00:00.000Z''" "Num 42"]
          health_reflects_readyState[OF m2 h2 b2 v2, of None "''2025-12-10T00:00:00.000Z''" "Num 42"]
    by simp
qed

text \<open>The case left aside: the same request with matching validators is answered 304.\<close>

lemma health_conditional_get:
  "server (Num 1) None ''2025-12-10T00:00:00.000Z'' (Num 42)
      \<lparr> req_method = ''GET'', req_path = ''/health'', body_error = None, validators_match = True \<rparr>
     = \<lparr> wire_status = 304, wire_body = NoBody \<rparr>"
  by (simp add: server_def route_health_def lower_ascii_def respond_health res_json_def
        bodyless_def)

section \<open>Properties of the error handler\<close>








end
